theory Spec2Isabelle
  imports Complex_Main "HOL-Library.Multiset"
begin

section \<open>Arrays, errors and the numeric idealisation\<close>

text \<open>
  The program is a single Python module built on numpy. Its float64 values are modelled
  as exact reals. Under exact arithmetic the only non-finite value the modelled code can
  produce is the NaN of \<open>0 / 0\<close> inside \<open>normalizeRows\<close>; it is written \<open>None\<close>.
  A one-dimensional array is the list of its entries, a two-dimensional array the list of
  its rows (an array with no rows therefore carries no column count).
\<close>

type_synonym vec = "real list"
type_synonym matrix = "real list list"

datatype error =
    AssertionError string
  | ZeroDivisionError
  | ValueError
  | IndexError
  | NonConforming
  | UninitialisedRead
  | NaNWeights

text \<open>
  \<open>NonConforming\<close> marks an elementwise operation on operands of different shapes, where
  numpy either raises ValueError or stretches an axis of length one; \<open>UninitialisedRead\<close>
  marks a read of the unset tail of an \<open>np.empty\<close> array; \<open>NaNWeights\<close> marks a random
  initialisation that leaves NaN in the weight matrix, whose entries are reals here. All
  three lie outside what the model describes, and no theorem below depends on their
  outcome.
\<close>

definition has_shape :: "matrix \<Rightarrow> nat \<times> nat \<Rightarrow> bool" where
  "has_shape m s = (length m = fst s \<and> list_all (\<lambda>r. length r = snd s) m)"

definition intp_max :: int where
  \<comment> \<open>The largest array index and byte count of numpy on a 64-bit platform.\<close>
  "intp_max = 2 ^ 63 - 1"

definition shape_refused :: "int \<times> int \<Rightarrow> bool" where
  \<comment> \<open>numpy creates no array with a negative dimension, nor one whose byte count, eight
      bytes per float64 entry with dimensions equal to zero left out of the product,
      exceeds \<open>intp_max\<close>; it raises ValueError. A dimension beyond \<open>intp_max\<close> is refused
      by the same test.\<close>
  "shape_refused s =
     (fst s < 0 \<or> snd s < 0
      \<or> intp_max < 8 * (if fst s = 0 then 1 else fst s) * (if snd s = 0 then 1 else snd s))"

definition np_zeros :: "int \<times> int \<Rightarrow> error + matrix" where
  \<comment> \<open>\<open>np.zeros\<close> of a two-dimensional shape. Exhausted memory (MemoryError) on a shape
      within the limits depends on the machine and is not modelled.\<close>
  "np_zeros s =
     (if shape_refused s then Inl ValueError
      else Inr (replicate (nat (fst s)) (replicate (nat (snd s)) 0)))"

definition np_random_uniform ::
  "('g \<Rightarrow> nat \<times> nat \<Rightarrow> matrix \<times> 'g) \<Rightarrow> 'g \<Rightarrow> int \<times> int \<Rightarrow> error + matrix \<times> 'g" where
  \<comment> \<open>\<open>np.random.uniform( low=-1, high=1, size=s )\<close>: \<open>draw g s\<close> is the array the generator
      yields in state \<open>g\<close> for an admissible shape, with the state left behind.\<close>
  "np_random_uniform draw g s =
     (if shape_refused s then Inl ValueError
      else Inr (draw g (nat (fst s), nat (snd s))))"

definition np_dot :: "vec \<Rightarrow> vec \<Rightarrow> real" where
  "np_dot r x = sum_list (map2 (*) r x)"

definition np_max :: "vec \<Rightarrow> real" where
  "np_max x = fold max (tl x) (hd x)"

definition argmax :: "vec \<Rightarrow> nat" where
  \<comment> \<open>\<open>np.argmax\<close> on a non-empty vector: the first position holding the maximum.\<close>
  "argmax x = length (takeWhile (\<lambda>a. a \<noteq> np_max x) x)"

definition py_int :: "real \<Rightarrow> int" where
  \<comment> \<open>Python's \<open>int()\<close> on a float truncates toward zero.\<close>
  "py_int r = (if 0 \<le> r then \<lfloor>r\<rfloor> else \<lceil>r\<rceil>)"

section \<open>Functions used in classes\<close>

definition l2norm :: "vec \<Rightarrow> real" where
  "l2norm r = sqrt (sum_list (map (\<lambda>v. v * v) r))"

definition normalizeRows :: "matrix \<Rightarrow> real option list list" where
  \<comment> \<open>\<open>x / np.linalg.norm(x, axis=1)[:, None]\<close>: a row of norm zero holds only zeros
      (lemma \<open>l2norm_zero_iff\<close>), so each of its quotients is \<open>0 / 0\<close>, numpy's NaN.\<close>
  "normalizeRows x =
     map (\<lambda>r. map (\<lambda>v. if l2norm r = 0 then None else Some (v / l2norm r)) r) x"

definition softmax :: "vec \<Rightarrow> error + vec" where
  \<comment> \<open>\<open>np.max\<close> of an empty array raises ValueError.\<close>
  "softmax x =
     (if x = [] then Inl ValueError
      else let xrel = map (\<lambda>v. v - np_max x) x
           in Inr (map (\<lambda>v. exp v / sum_list (map exp xrel)) xrel))"

definition asDigits :: "matrix \<Rightarrow> error + nat list" where
  \<comment> \<open>\<open>np.argmax(labels, axis=1)\<close>; an argmax over an empty row raises ValueError.\<close>
  "asDigits labels =
     (if list_ex (\<lambda>r. r = []) labels then Inl ValueError else Inr (map argmax labels))"

definition predict :: "(vec \<Rightarrow> error + vec) \<Rightarrow> vec \<Rightarrow> error + nat option" where
  \<comment> \<open>Body of the prediction loop of \<open>runTest\<close>; \<open>None\<close> is the NaN stored for Python's None.\<close>
  "predict network x =
     (case network x of
        Inl e \<Rightarrow> Inl e
      | Inr predvec \<Rightarrow>
          if sum_list predvec = 0 then Inr None
          else (case softmax predvec of
                  Inl e \<Rightarrow> Inl e
                | Inr s \<Rightarrow> Inr (Some (argmax s))))"

fun preds_loop :: "(vec \<Rightarrow> error + vec) \<Rightarrow> nat \<Rightarrow> nat \<Rightarrow> matrix \<Rightarrow> error + nat option list" where
  "preds_loop network n i [] = Inr []"
| "preds_loop network n i (x # X) =
     (case predict network x of
        Inl e \<Rightarrow> Inl e
      | Inr p \<Rightarrow>
          if n \<le> i then Inl IndexError
          else (case preds_loop network n (Suc i) X of
                  Inl e \<Rightarrow> Inl e
                | Inr ps \<Rightarrow> Inr (p # ps)))"

definition runTest ::
  "matrix \<Rightarrow> matrix \<Rightarrow> (vec \<Rightarrow> error + vec) \<Rightarrow> nat list option \<Rightarrow> error + real \<times> nat list" where
  "runTest X y network convertedy =
     (if length X \<noteq> length y then Inl (AssertionError ''X shape does not match y shape!'')
      else case (case convertedy of None \<Rightarrow> asDigits y | Some d \<Rightarrow> Inr d) of
        Inl e \<Rightarrow> Inl e
      | Inr yd \<Rightarrow>
         (case preds_loop network (length yd) 0 X of
            Inl e \<Rightarrow> Inl e
          | Inr preds \<Rightarrow>
              if length preds < length yd then Inl UninitialisedRead
              else let comp = map2 (\<lambda>p d. p = Some d) preds yd
                   in if length yd = 0 then Inl ZeroDivisionError
                      else Inr (real (length (filter (\<lambda>c. c) comp)) / real (length yd),
                                filter (\<lambda>i. \<not> comp ! i) [0..<length comp])))"

section \<open>The Layer class\<close>

record layer =
  layerShape :: "int \<times> int"
  aF :: "vec \<Rightarrow> error + vec"
  learning :: "matrix \<Rightarrow> vec \<Rightarrow> vec \<Rightarrow> real \<Rightarrow> error + matrix"
  normalize :: bool
  weights :: matrix

definition Layer_init ::
  "int \<Rightarrow> int \<Rightarrow> (vec \<Rightarrow> error + vec) \<Rightarrow> (matrix \<Rightarrow> vec \<Rightarrow> vec \<Rightarrow> real \<Rightarrow> error + matrix)
     \<Rightarrow> bool \<Rightarrow> error + layer" where
  \<comment> \<open>\<open>Layer.__init__\<close> with \<open>random=False\<close>, its default and its value at every construction in
      \<open>trainNewNetworksAndTest\<close>.\<close>
  "Layer_init nInputs nNeurons activationFunction learningRule normalizeFlag =
     (case np_zeros (nNeurons, nInputs) of
        Inl e \<Rightarrow> Inl e
      | Inr z \<Rightarrow> Inr \<lparr>layerShape = (nNeurons, nInputs), aF = activationFunction,
                      learning = learningRule, normalize = normalizeFlag, weights = z\<rparr>)"

definition Layer_init_random ::
  "('g \<Rightarrow> nat \<times> nat \<Rightarrow> matrix \<times> 'g) \<Rightarrow> 'g \<Rightarrow> int \<Rightarrow> int \<Rightarrow> (vec \<Rightarrow> error + vec)
     \<Rightarrow> (matrix \<Rightarrow> vec \<Rightarrow> vec \<Rightarrow> real \<Rightarrow> error + matrix) \<Rightarrow> bool \<Rightarrow> error + layer \<times> 'g" where
  \<comment> \<open>\<open>Layer.__init__\<close> with \<open>random=True\<close>: the weights are the row-normalised draw, and the
      generator moves on. A drawn row of zeros would leave NaN in the weights.\<close>
  "Layer_init_random draw g nInputs nNeurons activationFunction learningRule normalizeFlag =
     (case np_random_uniform draw g (nNeurons, nInputs) of
        Inl e \<Rightarrow> Inl e
      | Inr drawn \<Rightarrow>
          if list_ex (list_ex (\<lambda>v. v = None)) (normalizeRows (fst drawn)) then Inl NaNWeights
          else Inr (\<lparr>layerShape = (nNeurons, nInputs), aF = activationFunction,
                     learning = learningRule, normalize = normalizeFlag,
                     weights = map (map the) (normalizeRows (fst drawn))\<rparr>, snd drawn))"

definition getWeights :: "layer \<Rightarrow> matrix" where
  "getWeights l = weights l"

definition nan_to_zero :: "real option list list \<Rightarrow> matrix" where
  \<comment> \<open>\<open>w[np.isnan(w)] = 0\<close>\<close>
  "nan_to_zero w = map (map (\<lambda>v. case v of None \<Rightarrow> 0 | Some a \<Rightarrow> a)) w"

definition learn :: "layer \<Rightarrow> vec \<Rightarrow> vec \<Rightarrow> real \<Rightarrow> error + layer" where
  "learn l x y eta =
     (case learning l (weights l) x y eta of
        Inl e \<Rightarrow> Inl e
      | Inr w \<Rightarrow>
          Inr (l\<lparr>weights := (if normalize l then nan_to_zero (normalizeRows w) else w)\<rparr>))"

definition compute :: "layer \<Rightarrow> vec \<Rightarrow> error + vec" where
  \<comment> \<open>\<open>np.dot\<close> of a matrix and a vector of another length raises ValueError.\<close>
  "compute l x =
     (if list_all (\<lambda>r. length r = length x) (weights l)
      then aF l (map (\<lambda>r. np_dot r x) (weights l))
      else Inl ValueError)"

section \<open>Learning rules\<close>

definition conforms :: "matrix \<Rightarrow> vec \<Rightarrow> vec \<Rightarrow> bool" where
  "conforms W x y = (length y = length W \<and> list_all (\<lambda>r. length r = length x) W)"

definition r_hebb :: "matrix \<Rightarrow> vec \<Rightarrow> vec \<Rightarrow> real \<Rightarrow> error + matrix" where
  \<comment> \<open>\<open>W + eta * np.outer( y, x.T )\<close>\<close>
  "r_hebb W x y eta =
     (if conforms W x y
      then Inr (map2 (\<lambda>r yi. map2 (\<lambda>w xj. w + eta * (yi * xj)) r x) W y)
      else Inl NonConforming)"

definition r_decay :: "matrix \<Rightarrow> vec \<Rightarrow> vec \<Rightarrow> real \<Rightarrow> error + matrix" where
  \<comment> \<open>\<open>W + eta * ( ( x - W ) * y[ :, None ] )\<close>\<close>
  "r_decay W x y eta =
     (if conforms W x y
      then Inr (map2 (\<lambda>r yi. map2 (\<lambda>w xj. w + eta * ((xj - w) * yi)) r x) W y)
      else Inl NonConforming)"

definition r_ojas :: "matrix \<Rightarrow> vec \<Rightarrow> vec \<Rightarrow> real \<Rightarrow> error + matrix" where
  \<comment> \<open>\<open>W + eta * ( ( x - W * y[ :, None ] ) * y[ :, None ] )\<close>\<close>
  "r_ojas W x y eta =
     (if conforms W x y
      then Inr (map2 (\<lambda>r yi. map2 (\<lambda>w xj. w + eta * ((xj - w * yi) * yi)) r x) W y)
      else Inl NonConforming)"

section \<open>Layer.train\<close>

text \<open>
  numpy's global generator is a parameter: \<open>perm g n\<close> is the array returned by
  \<open>np.random.permutation(n)\<close> in generator state \<open>g\<close> together with the state left behind.
  The state of a running \<open>train\<close> call is the layer, the local \<open>eta\<close> and \<open>hist\<close>, and the
  generator. \<open>orders\<close> is a history variable: the visiting order chosen in each epoch
  begun so far. A raised exception is returned beside the state reached.
\<close>

record 'g train_st =
  lyr :: layer
  eta_cur :: real
  hist :: "real list"
  rng :: 'g
  orders :: "nat list list"

fun sample_loop ::
  "int \<Rightarrow> real \<Rightarrow> matrix \<Rightarrow> matrix \<Rightarrow> int \<Rightarrow> nat list \<Rightarrow> 'g train_st \<Rightarrow> 'g train_st \<times> error option" where
  "sample_loop idxDec decay Xt yt i [] st = (st, None)"
| "sample_loop idxDec decay Xt yt i (idx # rest) st =
     (if length Xt \<le> idx \<or> length yt \<le> idx then (st, Some IndexError)
      else case learn (lyr st) (Xt ! idx) (yt ! idx) (eta_cur st) of
        Inl e \<Rightarrow> (st, Some e)
      | Inr l' \<Rightarrow>
          if idxDec = 0 then (st\<lparr>lyr := l'\<rparr>, Some ZeroDivisionError)
          else sample_loop idxDec decay Xt yt (i + 1) rest
                 (if (i + 1) mod idxDec = 0
                  then st\<lparr>lyr := l', eta_cur := eta_cur st * decay\<rparr>
                  else st\<lparr>lyr := l'\<rparr>))"

fun epoch_loop ::
  "('g \<Rightarrow> nat \<Rightarrow> nat list \<times> 'g) \<Rightarrow> bool \<Rightarrow> int \<Rightarrow> real \<Rightarrow> matrix \<Rightarrow> matrix \<Rightarrow> matrix \<Rightarrow> matrix
     \<Rightarrow> nat \<Rightarrow> 'g train_st \<Rightarrow> 'g train_st \<times> error option" where
  "epoch_loop perm permute idxDec decay Xt yt X_val y_val 0 st = (st, None)"
| "epoch_loop perm permute idxDec decay Xt yt X_val y_val (Suc k) st =
     (let drawn = (if permute then perm (rng st) (length Xt) else ([0..<length Xt], rng st));
          st0 = st\<lparr>rng := snd drawn, orders := orders st @ [fst drawn]\<rparr>
      in case sample_loop idxDec decay Xt yt 0 (fst drawn) st0 of
           (st1, Some e) \<Rightarrow> (st1, Some e)
         | (st1, None) \<Rightarrow>
             (case runTest X_val y_val (compute (lyr st1)) None of
                Inl e \<Rightarrow> (st1, Some e)
              | Inr res \<Rightarrow>
                  epoch_loop perm permute idxDec decay Xt yt X_val y_val k
                    (st1\<lparr>hist := hist st1 @ [fst res], eta_cur := eta_cur st1 * decay\<rparr>)))"

definition train ::
  "('g \<Rightarrow> nat \<Rightarrow> nat list \<times> 'g) \<Rightarrow> 'g \<Rightarrow> layer \<Rightarrow> matrix \<Rightarrow> matrix \<Rightarrow> matrix \<Rightarrow> matrix
     \<Rightarrow> nat \<Rightarrow> real \<Rightarrow> bool \<Rightarrow> real \<Rightarrow> real \<Rightarrow> 'g train_st \<times> error option" where
  "train perm g l Xt yt X_val y_val epochs eta permute decay decayAfter =
     (let st = \<lparr>lyr = l, eta_cur = eta, hist = [], rng = g, orders = []\<rparr>
      in if length Xt \<noteq> length yt
         then (st, Some (AssertionError ''X shape does not match y shape!''))
         else if length X_val \<noteq> length y_val
         then (st, Some (AssertionError ''X shape does not match y shape (Val Data)!''))
         else if \<not> (decayAfter \<le> 1 \<and> decayAfter > 0)
         then (st, Some (AssertionError ''Decay ''))
         else epoch_loop perm permute (py_int (real (length Xt) * decayAfter)) decay
                Xt yt X_val y_val epochs st)"

section \<open>The experiment driver\<close>

text \<open>
  \<open>seed k\<close> is the generator state that \<open>np.random.seed(k)\<close> installs, whatever the state
  before. One pass of the loop over \<open>run\<close> in \<open>trainNewNetworksAndTest\<close> yields the three
  trained networks with their training states and the three test results; an exception
  raised by any call ends the experiment.
\<close>

record 'g run_out =
  hebb_run :: "'g train_st"
  deca_run :: "'g train_st"
  ojas_run :: "'g train_st"
  hebb_post :: "real \<times> nat list"
  deca_post :: "real \<times> nat list"
  ojas_post :: "real \<times> nat list"

definition trained :: "'g train_st \<times> error option \<Rightarrow> error + 'g train_st" where
  \<comment> \<open>A \<open>train\<close> call as its caller sees it: the exception, or the state it returned in.\<close>
  "trained r = (case snd r of Some e \<Rightarrow> Inl e | None \<Rightarrow> Inr (fst r))"

definition bind_err :: "error + 'a \<Rightarrow> ('a \<Rightarrow> error + 'b) \<Rightarrow> error + 'b" where
  "bind_err m f = (case m of Inl e \<Rightarrow> Inl e | Inr v \<Rightarrow> f v)"

definition experiment_run ::
  "(nat \<Rightarrow> 'g) \<Rightarrow> ('g \<Rightarrow> nat \<Rightarrow> nat list \<times> 'g)
     \<Rightarrow> (matrix \<Rightarrow> vec \<Rightarrow> vec \<Rightarrow> real \<Rightarrow> error + matrix)
     \<Rightarrow> (matrix \<Rightarrow> vec \<Rightarrow> vec \<Rightarrow> real \<Rightarrow> error + matrix)
     \<Rightarrow> (matrix \<Rightarrow> vec \<Rightarrow> vec \<Rightarrow> real \<Rightarrow> error + matrix)
     \<Rightarrow> matrix \<Rightarrow> matrix \<Rightarrow> matrix \<Rightarrow> matrix \<Rightarrow> matrix \<Rightarrow> matrix
     \<Rightarrow> nat \<Rightarrow> real \<Rightarrow> real \<Rightarrow> bool \<Rightarrow> int \<Rightarrow> int \<Rightarrow> real \<Rightarrow> nat \<Rightarrow> error + 'g run_out" where
  "experiment_run seed perm rule_hebb rule_decay rule_ojas X_train y_train X_val y_val X_test y_test
       epochs decayAfter decay permute N_INPUT N_OUTPUT eta run =
     bind_err (Layer_init N_INPUT N_OUTPUT Inr rule_hebb False) (\<lambda>hebb.
     bind_err (Layer_init N_INPUT N_OUTPUT Inr rule_decay False) (\<lambda>deca.
     bind_err (Layer_init N_INPUT N_OUTPUT Inr rule_ojas True) (\<lambda>ojas.
     bind_err (trained (train perm (seed run) hebb X_train y_train X_val y_val
                          epochs eta permute decay decayAfter)) (\<lambda>sh.
     bind_err (trained (train perm (seed run) deca X_train y_train X_val y_val
                          epochs eta permute decay decayAfter)) (\<lambda>sd.
     bind_err (trained (train perm (seed run) ojas X_train y_train X_val y_val
                          epochs eta permute decay decayAfter)) (\<lambda>so.
     bind_err (runTest X_test y_test (compute (lyr sh)) None) (\<lambda>th.
     bind_err (runTest X_test y_test (compute (lyr sd)) None) (\<lambda>td.
     bind_err (runTest X_test y_test (compute (lyr so)) None) (\<lambda>to.
       Inr \<lparr>hebb_run = sh, deca_run = sd, ojas_run = so,
            hebb_post = th, deca_post = td, ojas_post = to\<rparr>)))))))))"

fun runs_loop :: "(nat \<Rightarrow> error + 'g run_out) \<Rightarrow> nat list \<Rightarrow> error + 'g run_out list" where
  "runs_loop body [] = Inr []"
| "runs_loop body (run # rest) =
     (case body run of
        Inl e \<Rightarrow> Inl e
      | Inr out \<Rightarrow> (case runs_loop body rest of Inl e \<Rightarrow> Inl e | Inr outs \<Rightarrow> Inr (out # outs)))"

definition trainNewNetworksAndTest ::
  "(nat \<Rightarrow> 'g) \<Rightarrow> ('g \<Rightarrow> nat \<Rightarrow> nat list \<times> 'g)
     \<Rightarrow> (matrix \<Rightarrow> vec \<Rightarrow> vec \<Rightarrow> real \<Rightarrow> error + matrix)
     \<Rightarrow> (matrix \<Rightarrow> vec \<Rightarrow> vec \<Rightarrow> real \<Rightarrow> error + matrix)
     \<Rightarrow> (matrix \<Rightarrow> vec \<Rightarrow> vec \<Rightarrow> real \<Rightarrow> error + matrix)
     \<Rightarrow> matrix \<Rightarrow> matrix \<Rightarrow> matrix \<Rightarrow> matrix \<Rightarrow> matrix \<Rightarrow> matrix
     \<Rightarrow> nat \<Rightarrow> nat \<Rightarrow> real \<Rightarrow> real \<Rightarrow> bool \<Rightarrow> int \<Rightarrow> int \<Rightarrow> real \<Rightarrow> error + 'g run_out list" where
  \<comment> \<open>The per-rule result dictionaries of the source are the projections of this list, in
      run order.\<close>
  "trainNewNetworksAndTest seed perm rule_hebb rule_decay rule_ojas X_train y_train X_val y_val
       X_test y_test runs epochs decayAfter decay permute N_INPUT N_OUTPUT eta =
     runs_loop (experiment_run seed perm rule_hebb rule_decay rule_ojas X_train y_train X_val y_val
                  X_test y_test epochs decayAfter decay permute N_INPUT N_OUTPUT eta) [0..<runs]"

section \<open>Sequences of learn calls\<close>

fun learn_all :: "layer \<Rightarrow> (vec \<times> vec \<times> real) list \<Rightarrow> error + layer" where
  "learn_all l [] = Inr l"
| "learn_all l (c # cs) =
     (case learn l (fst c) (fst (snd c)) (snd (snd c)) of
        Inl e \<Rightarrow> Inl e
      | Inr l' \<Rightarrow> learn_all l' cs)"

section \<open>Auxiliary notions for the statements\<close>

text \<open>
  None of the following is code of the program. \<open>shape_rule\<close> says that a learning rule
  accepts every conforming call and keeps the shape; \<open>total_act\<close> that an activation
  function raises nothing; \<open>data_fits\<close> that a data set has as many samples as labels, of
  the lengths a layer of the given shape expects; \<open>is_permutation_source\<close> that the
  generator hands out permutations of \<open>range(n)\<close>, as \<open>np.random.permutation\<close> does.
  \<open>decay_steps idxDec i n\<close> counts the positions among the next \<open>n\<close> samples, after \<open>i\<close>
  have been seen, at which the in-loop decay fires; \<open>drawn_orders\<close> lists the visiting orders
  of successive epochs from a generator state; \<open>hebb_step\<close> is one plain Hebbian update
  with sample \<open>idx\<close>. The remaining constants are the concrete layers and generators of
  the examples.
\<close>

definition unit_layer :: layer where
  "unit_layer = \<lparr>layerShape = (1, 1), aF = Inr, learning = r_hebb, normalize = False,
                 weights = [[0]]\<rparr>"

definition shape_rule :: "(matrix \<Rightarrow> vec \<Rightarrow> vec \<Rightarrow> real \<Rightarrow> error + matrix) \<Rightarrow> bool" where
  "shape_rule f = (\<forall>W s x y eta. has_shape W s \<longrightarrow> length x = snd s \<longrightarrow> length y = fst s \<longrightarrow>
      (\<exists>W'. f W x y eta = Inr W' \<and> has_shape W' s))"

definition oja_layer :: layer where
  "oja_layer = \<lparr>layerShape = (2, 2), aF = Inr, learning = r_ojas, normalize = True,
                weights = [[0, 0], [0, 0]]\<rparr>"

definition softmax_layer :: layer where
  "softmax_layer = \<lparr>layerShape = (2, 1), aF = softmax, learning = r_hebb, normalize = False,
                    weights = [[0], [0]]\<rparr>"

definition total_act :: "(vec \<Rightarrow> error + vec) \<Rightarrow> bool" where
  "total_act f = (\<forall>v. \<exists>u. f v = Inr u)"

definition data_fits :: "matrix \<Rightarrow> matrix \<Rightarrow> nat \<times> nat \<Rightarrow> bool" where
  "data_fits X y s =
     (length X = length y \<and> list_all (\<lambda>x. length x = snd s) X \<and> list_all (\<lambda>r. length r = fst s) y)"

definition is_permutation_source :: "('g \<Rightarrow> nat \<Rightarrow> nat list \<times> 'g) \<Rightarrow> nat \<Rightarrow> bool" where
  "is_permutation_source perm n = (\<forall>g. mset (fst (perm g n)) = mset [0..<n])"

definition decay_steps :: "int \<Rightarrow> int \<Rightarrow> nat \<Rightarrow> nat" where
  "decay_steps idxDec i n = length (filter (\<lambda>j. j mod idxDec = 0) [i + 1..i + int n])"

fun drawn_orders :: "('g \<Rightarrow> nat \<Rightarrow> nat list \<times> 'g) \<Rightarrow> bool \<Rightarrow> 'g \<Rightarrow> nat \<Rightarrow> nat \<Rightarrow> nat list list" where
  "drawn_orders perm permute g n 0 = []"
| "drawn_orders perm permute g n (Suc k) =
     (let drawn = (if permute then perm g n else ([0..<n], g))
      in fst drawn # drawn_orders perm permute (snd drawn) n k)"

definition hebb_step :: "real \<Rightarrow> matrix \<Rightarrow> matrix \<Rightarrow> nat \<Rightarrow> matrix \<Rightarrow> matrix" where
  "hebb_step eta Xt yt idx W =
     map2 (\<lambda>r yi. map2 (\<lambda>w xj. w + eta * (yi * xj)) r (Xt ! idx)) W (yt ! idx)"

definition flip_perm :: "bool \<Rightarrow> nat \<Rightarrow> nat list \<times> bool" where
  "flip_perm g n = (if g then [0..<n] else rev [0..<n], g)"

definition ones_draw :: "unit \<Rightarrow> nat \<times> nat \<Rightarrow> matrix \<times> unit" where
  "ones_draw g s = (replicate (fst s) (replicate (snd s) 1), g)"

definition rot_perm :: "nat \<Rightarrow> nat \<Rightarrow> nat list \<times> nat" where
  "rot_perm g n = (rotate g [0..<n], Suc g)"

section \<open>Construction and configuration checks\<close>

lemma Layer_init_ok:
  "\<not> shape_refused (nN, nI) \<Longrightarrow>
   Layer_init nI nN af lr nf =
     Inr \<lparr>layerShape = (nN, nI), aF = af, learning = lr, normalize = nf,
          weights = replicate (nat nN) (replicate (nat nI) 0)\<rparr>"
  by (simp add: Layer_init_def np_zeros_def)

lemma Layer_init_Inr:
  "Layer_init nI nN af lr nf = Inr l \<Longrightarrow>
   0 \<le> nI \<and> 0 \<le> nN \<and>
   l = \<lparr>layerShape = (nN, nI), aF = af, learning = lr, normalize = nf,
         weights = replicate (nat nN) (replicate (nat nI) 0)\<rparr>"
  by (auto simp: Layer_init_def np_zeros_def shape_refused_def split: if_splits)

text \<open>
  Claim C7, as amended. \<open>Layer.__init__\<close> validates nothing itself. A negative \<open>nInputs\<close>
  or \<open>nNeurons\<close> makes construction fail, with either value of \<open>random\<close>, with the
  ValueError numpy raises for a negative dimension. A value of zero is not detected:
  with \<open>random=False\<close> and the other dimension within numpy's size limit, construction
  succeeds and gives a Layer whose weight matrix has no entries.
\<close>

theorem negative_dimension_raises_ValueError:
  "(nI < 0 \<or> nN < 0 \<longrightarrow>
      Layer_init nI nN af lr nf = Inl ValueError
      \<and> Layer_init_random draw g nI nN af lr nf = Inl ValueError)
   \<and> (nI = 0 \<and> 0 \<le> nN \<and> 8 * nN \<le> intp_max \<longrightarrow>
      Layer_init nI nN af lr nf =
        Inr \<lparr>layerShape = (nN, nI), aF = af, learning = lr, normalize = nf,
             weights = replicate (nat nN) []\<rparr>)
   \<and> (nN = 0 \<and> 0 \<le> nI \<and> 8 * nI \<le> intp_max \<longrightarrow>
      Layer_init nI nN af lr nf =
        Inr \<lparr>layerShape = (nN, nI), aF = af, learning = lr, normalize = nf, weights = []\<rparr>)"
  by (auto simp: Layer_init_def Layer_init_random_def np_zeros_def np_random_uniform_def
      shape_refused_def intp_max_def)

theorem negative_dimension_raises_ValueError_witness:
  "Layer_init (- 1) 10 Inr r_hebb False = Inl ValueError
   \<and> Layer_init_random ones_draw () (- 1) 10 Inr r_hebb False = Inl ValueError
   \<and> Layer_init 10 0 Inr r_hebb False =
       Inr \<lparr>layerShape = (0, 10), aF = Inr, learning = r_hebb, normalize = False, weights = []\<rparr>"
  using negative_dimension_raises_ValueError [of "- 1" 10 Inr r_hebb False ones_draw "()"]
        negative_dimension_raises_ValueError [of 10 0 Inr r_hebb False ones_draw "()"]
  by (simp add: intp_max_def)

text \<open>Claim C7 as stated fails: a Layer with zero inputs is constructed without error.\<close>

theorem Layer_init_zero_inputs_accepted:
  "(0::int) \<le> 0 \<and>
   Layer_init 0 10 Inr r_hebb False =
     Inr \<lparr>layerShape = (10, 0), aF = Inr, learning = r_hebb, normalize = False,
          weights = replicate 10 []\<rparr>"
  by (simp add: Layer_init_def np_zeros_def shape_refused_def intp_max_def)

text \<open>
  Claim C6. A \<open>train\<close> call whose \<open>decayAfter\<close> lies outside (0, 1] ends in an
  AssertionError with the layer, the learning rate and the generator as they were and no
  epoch begun; when the two shape assertions before it pass, it is the assertion on
  \<open>decayAfter\<close> that fails.
\<close>

theorem train_rejects_decayAfter:
  assumes "decayAfter \<le> 0 \<or> 1 < decayAfter"
  shows "\<exists>msg. train perm g l Xt yt X_val y_val epochs eta permute decay decayAfter =
           (\<lparr>lyr = l, eta_cur = eta, hist = [], rng = g, orders = []\<rparr>, Some (AssertionError msg))
         \<and> (length Xt = length yt \<and> length X_val = length y_val \<longrightarrow> msg = ''Decay '')"
  using assms by (auto simp: train_def Let_def)

theorem train_rejects_decayAfter_witness:
  "(\<exists>msg. train (\<lambda>g n. ([0..<n], g)) () unit_layer [[1]] [[1]] [[1]] [[1]] 3 1 False 1 0 =
      (\<lparr>lyr = unit_layer, eta_cur = 1, hist = [], rng = (), orders = []\<rparr>,
       Some (AssertionError msg)) \<and> msg = ''Decay '')
   \<and> (\<exists>msg. train (\<lambda>g n. ([0..<n], g)) () unit_layer [[1]] [[1]] [[1]] [[1]] 3 1 False 1 (3/2) =
      (\<lparr>lyr = unit_layer, eta_cur = 1, hist = [], rng = (), orders = []\<rparr>,
       Some (AssertionError msg)) \<and> msg = ''Decay '')"
  using train_rejects_decayAfter [of 0 "\<lambda>g n. ([0..<n], g)" "()" unit_layer "[[1]]" "[[1]]" "[[1]]" "[[1]]" 3 1 False 1]
        train_rejects_decayAfter [of "3/2" "\<lambda>g n. ([0..<n], g)" "()" unit_layer "[[1]]" "[[1]]" "[[1]]" "[[1]]" 3 1 False 1]
  by simp

section \<open>The learning rules keep the shape\<close>

lemma has_shape_conforms:
  "has_shape W s \<Longrightarrow> length x = snd s \<Longrightarrow> length y = fst s \<Longrightarrow> conforms W x y"
  by (simp add: has_shape_def conforms_def)

lemma has_shape_map2:
  assumes "has_shape W s" "length x = snd s" "length y = fst s"
  shows "has_shape (map2 (\<lambda>r yi. map2 (\<lambda>w xj. f yi w xj) r x) W y) s"
  using assms
  by (auto simp: has_shape_def list_all_iff set_zip)

lemma r_hebb_shape:
  "has_shape W s \<Longrightarrow> length x = snd s \<Longrightarrow> length y = fst s \<Longrightarrow>
   \<exists>W'. r_hebb W x y eta = Inr W' \<and> has_shape W' s"
  by (simp add: r_hebb_def has_shape_conforms has_shape_map2)

lemma r_decay_shape:
  "has_shape W s \<Longrightarrow> length x = snd s \<Longrightarrow> length y = fst s \<Longrightarrow>
   \<exists>W'. r_decay W x y eta = Inr W' \<and> has_shape W' s"
  by (simp add: r_decay_def has_shape_conforms has_shape_map2)

lemma r_ojas_shape:
  "has_shape W s \<Longrightarrow> length x = snd s \<Longrightarrow> length y = fst s \<Longrightarrow>
   \<exists>W'. r_ojas W x y eta = Inr W' \<and> has_shape W' s"
  by (simp add: r_ojas_def has_shape_conforms has_shape_map2)

lemma has_shape_normalized:
  "has_shape (nan_to_zero (normalizeRows W)) s = has_shape W s"
  by (simp add: has_shape_def nan_to_zero_def normalizeRows_def list_all_iff)

lemma shape_rule_three: "f \<in> {r_hebb, r_decay, r_ojas} \<Longrightarrow> shape_rule f"
  unfolding shape_rule_def using r_hebb_shape r_decay_shape r_ojas_shape by blast

lemma learn_shape:
  assumes "shape_rule (learning l)" "has_shape (weights l) s" "length x = snd s" "length y = fst s"
  shows "\<exists>l'. learn l x y eta = Inr l' \<and> has_shape (weights l') s \<and> learning l' = learning l
           \<and> normalize l' = normalize l \<and> aF l' = aF l \<and> layerShape l' = layerShape l"
proof -
  from assms obtain W' where W': "learning l (weights l) x y eta = Inr W'" "has_shape W' s"
    unfolding shape_rule_def by blast
  then show ?thesis
    by (simp add: learn_def has_shape_normalized)
qed

lemma learn_all_shape:
  assumes "shape_rule (learning l)" "has_shape (weights l) s"
    "\<forall>c \<in> set calls. length (fst c) = snd s \<and> length (fst (snd c)) = fst s"
  shows "\<exists>l'. learn_all l calls = Inr l' \<and> has_shape (weights l') s \<and> learning l' = learning l
           \<and> normalize l' = normalize l \<and> aF l' = aF l \<and> layerShape l' = layerShape l"
  using assms
proof (induction calls arbitrary: l)
  case Nil
  then show ?case by simp
next
  case (Cons c cs)
  from Cons.prems obtain l1 where l1: "learn l (fst c) (fst (snd c)) (snd (snd c)) = Inr l1"
    "has_shape (weights l1) s" "learning l1 = learning l" "normalize l1 = normalize l"
    "aF l1 = aF l" "layerShape l1 = layerShape l"
    using learn_shape [of l s "fst c" "fst (snd c)" "snd (snd c)"] by auto
  with Cons.prems have "\<exists>l'. learn_all l1 cs = Inr l' \<and> has_shape (weights l') s \<and> learning l' = learning l1
           \<and> normalize l' = normalize l1 \<and> aF l' = aF l1 \<and> layerShape l' = layerShape l1"
    by (intro Cons.IH) auto
  with l1 show ?case by auto
qed

lemma Layer_init_shape:
  "0 \<le> nI \<Longrightarrow> 0 \<le> nN \<Longrightarrow>
   has_shape (replicate (nat nN) (replicate (nat nI) (0::real))) (nat nN, nat nI)"
  by (simp add: has_shape_def list_all_iff)

section \<open>Shape of the weight matrix\<close>

text \<open>
  Claim C5. Every Layer constructed with positive \<open>nInputs\<close> and \<open>nNeurons\<close> and any of
  the three learning rules, with or without normalisation, accepts every finite sequence
  of \<open>learn\<close> calls whose inputs have length \<open>nInputs\<close> and whose targets have length
  \<open>nNeurons\<close>, and \<open>getWeights\<close> then returns a matrix of \<open>nNeurons\<close> rows of length
  \<open>nInputs\<close>.
\<close>

theorem learn_keeps_shape:
  assumes "0 < nI" "0 < nN" "rule \<in> {r_hebb, r_decay, r_ojas}"
    "\<forall>c \<in> set calls. length (fst c) = nat nI \<and> length (fst (snd c)) = nat nN"
    "Layer_init nI nN af rule nf = Inr l0"
  shows "\<exists>l'. learn_all l0 calls = Inr l' \<and> has_shape (getWeights l') (nat nN, nat nI)"
proof -
  from assms(5) have l0: "l0 = \<lparr>layerShape = (nN, nI), aF = af, learning = rule, normalize = nf,
          weights = replicate (nat nN) (replicate (nat nI) 0)\<rparr>"
    by (simp add: Layer_init_Inr)
  have "\<exists>l'. learn_all l0 calls = Inr l' \<and> has_shape (weights l') (nat nN, nat nI) \<and> learning l' = learning l0
           \<and> normalize l' = normalize l0 \<and> aF l' = aF l0 \<and> layerShape l' = layerShape l0"
    using assms(1-4) by (intro learn_all_shape) (auto simp: l0 shape_rule_three Layer_init_shape)
  then show ?thesis by (auto simp: getWeights_def)
qed

lemma ojas_layer_2_1:
  "Layer_init 2 1 Inr r_ojas True =
     Inr \<lparr>layerShape = (1, 2), aF = Inr, learning = r_ojas, normalize = True, weights = [[0, 0]]\<rparr>"
  by (simp add: Layer_init_def np_zeros_def shape_refused_def intp_max_def numeral_2_eq_2)

theorem learn_keeps_shape_witness:
  "Layer_init 2 1 Inr r_ojas True =
     Inr \<lparr>layerShape = (1, 2), aF = Inr, learning = r_ojas, normalize = True, weights = [[0, 0]]\<rparr>
   \<and> (\<exists>l'. learn_all \<lparr>layerShape = (1, 2), aF = Inr, learning = r_ojas, normalize = True,
                       weights = [[0, 0]]\<rparr>
              [([1, 0], [1], 1/4), ([0, 1], [0], 1/4)] = Inr l'
          \<and> has_shape (getWeights l') (1, 2))"
  using learn_keeps_shape [of 2 1 r_ojas "[([1, 0], [1], 1/4), ([0, 1], [0], 1/4)]" Inr True,
          OF _ _ _ _ ojas_layer_2_1]
        ojas_layer_2_1
  by simp

section \<open>Row normalisation\<close>















section \<open>Evaluation\<close>

lemma preds_loop_Inr:
  "preds_loop network n k X = Inr ps \<Longrightarrow>
   length ps = length X \<and> (X = [] \<or> k + length X \<le> n)
   \<and> (\<forall>i < length X. predict network (X ! i) = Inr (ps ! i))"
proof (induction X arbitrary: k ps)
  case Nil
  then show ?case by simp
next
  case (Cons x X)
  from Cons.prems obtain p ps' where p: "predict network x = Inr p" "\<not> n \<le> k"
    "preds_loop network n (Suc k) X = Inr ps'" "ps = p # ps'"
    by (auto split: sum.splits if_splits)
  from Cons.IH [OF p(3)] p show ?case
    by (auto simp: nth_Cons split: nat.splits)
qed

lemma preds_loop_ok:
  "\<forall>x \<in> set X. predict network x = Inr (f x) \<Longrightarrow> k + length X \<le> n \<Longrightarrow>
   preds_loop network n k X = Inr (map f X)"
  by (induction X arbitrary: k) auto

lemma runTest_Inr:
  assumes "runTest X y network cy = Inr (correct, wrong)"
  obtains yd preds where
    "length preds = length X" "length yd = length X" "X \<noteq> []"
    "\<forall>i < length X. predict network (X ! i) = Inr (preds ! i)"
    "correct = real (length (filter (\<lambda>c. c) (map2 (\<lambda>p d. p = Some d) preds yd))) / real (length X)"
    "wrong = filter (\<lambda>i. preds ! i \<noteq> Some (yd ! i)) [0..<length X]"
proof -
  from assms obtain yd preds where yd: "preds_loop network (length yd) 0 X = Inr preds"
    and g: "\<not> length preds < length yd" "length yd \<noteq> 0"
    and c: "correct = real (length (filter (\<lambda>c. c) (map2 (\<lambda>p d. p = Some d) preds yd))) / real (length yd)"
    and w: "wrong = filter (\<lambda>i. \<not> map2 (\<lambda>p d. p = Some d) preds yd ! i)
                      [0..<length (map2 (\<lambda>p d. p = Some d) preds yd)]"
    by (auto simp: runTest_def Let_def split: sum.splits if_splits option.splits)
  from preds_loop_Inr [OF yd] g have len: "length preds = length X" "length yd = length X"
    and pr: "\<forall>i < length X. predict network (X ! i) = Inr (preds ! i)"
    by auto
  have "wrong = filter (\<lambda>i. preds ! i \<noteq> Some (yd ! i)) [0..<length X]"
    unfolding w using len by (auto intro!: filter_cong)
  with len pr c g that show thesis by auto
qed

text \<open>
  Claim C9. In a \<open>runTest\<close> call that returns, every sample whose output vector sums to
  zero gets the undefined prediction, whatever its entries, and its index is among the
  misclassified ones, whatever the labels.
\<close>

theorem zero_sum_output_is_mismatch:
  assumes "runTest X y network cy = Inr (correct, wrong)"
    and "i < length X" and "network (X ! i) = Inr v" and "sum_list v = 0"
  shows "predict network (X ! i) = Inr None \<and> i \<in> set wrong \<and> (\<forall>d. None \<noteq> Some (d::nat))"
proof -
  have p: "predict network (X ! i) = Inr None"
    using assms(3,4) by (simp add: predict_def)
  from assms(1) obtain yd preds where
    "\<forall>i < length X. predict network (X ! i) = Inr (preds ! i)"
    "wrong = filter (\<lambda>i. preds ! i \<noteq> Some (yd ! i)) [0..<length X]"
    by (rule runTest_Inr)
  with p assms(2) show ?thesis by auto
qed

theorem zero_sum_output_is_mismatch_witness:
  "runTest [[1]] [[1, 0, 0]] (\<lambda>x. Inr [1, - 1, 0]) None = Inr (0, [0])
   \<and> predict (\<lambda>x. Inr [1, - 1, 0]) [1] = Inr None \<and> 0 \<in> set [0::nat]"
proof -
  have r: "runTest [[1]] [[1, 0, 0]] (\<lambda>x. Inr [1, - 1, 0]) None = Inr (0, [0])"
    by (simp add: runTest_def asDigits_def predict_def)
  from zero_sum_output_is_mismatch [OF r, of 0 "[1, - 1, 0]"] r
  show ?thesis by simp
qed

lemma np_dot_zero_row: "\<forall>v \<in> set r. v = 0 \<Longrightarrow> np_dot r x = 0"
  unfolding np_dot_def
  by (induction r arbitrary: x) (auto simp: zip_Cons1 split: list.splits)

lemma compute_zero_weights:
  assumes "\<forall>r \<in> set (weights l). \<forall>v \<in> set r. v = 0"
    and "list_all (\<lambda>r. length r = length x) (weights l)"
  shows "compute l x = aF l (replicate (length (weights l)) 0)"
proof -
  have "map (\<lambda>r. np_dot r x) (weights l) = map (\<lambda>r. 0) (weights l)"
    using assms(1) by (intro map_cong) (auto simp: np_dot_zero_row)
  then show ?thesis using assms(2) by (simp add: compute_def map_replicate_const)
qed

lemma runTest_all_undefined:
  assumes p: "\<forall>x \<in> set X. predict network x = Inr None"
    and ne: "X \<noteq> []" and len: "length X = length y" and rows: "\<forall>r \<in> set y. r \<noteq> []"
  shows "runTest X y network None = Inr (0, [0..<length X])"
proof -
  have d: "asDigits y = Inr (map argmax y)"
    using rows by (auto simp: asDigits_def list_ex_iff)
  have l: "preds_loop network (length y) 0 X = Inr (map (\<lambda>x. None) X)"
    using p len by (intro preds_loop_ok) auto
  have c: "map2 (\<lambda>p d. p = Some d) (map (\<lambda>x. None) X) (map argmax y) = map (\<lambda>x. False) X"
    using len by (auto simp: list_eq_iff_nth_eq)
  have f1: "filter (\<lambda>c. c) (map (\<lambda>x. False) X) = []"
    by (induction X) auto
  have f2: "filter (\<lambda>i. \<not> map (\<lambda>x. False) X ! i) [0..<length X] = [0..<length X]"
    by (rule filter_True) simp
  have y: "y \<noteq> []" using ne len by auto
  show ?thesis
    using len y by (simp add: runTest_def d l c Let_def f1 f2)
qed

lemma softmax_two_zeros: "softmax [0, 0] = Inr [1/2, 1/2]"
  by (simp add: softmax_def np_max_def)

lemma softmax_two_halves: "softmax [1/2, 1/2] = Inr [1/2, 1/2]"
  by (simp add: softmax_def np_max_def)

text \<open>
  Claim C2 as stated fails: \<open>compute\<close> applies the layer's activation function, and with
  softmax as activation an all-zero weight matrix gives the output (1/2, 1/2), whose sum
  is not zero; the sample is classified as class 0 and counted correct.
\<close>

theorem zero_weights_softmax_predicts_class_0:
  "Layer_init 1 2 softmax r_hebb False = Inr softmax_layer
   \<and> weights softmax_layer = [[0], [0]]
   \<and> predict (compute softmax_layer) [1] = Inr (Some 0)
   \<and> runTest [[1]] [[1, 0]] (compute softmax_layer) None = Inr (1, [])"
  by (simp add: Layer_init_def np_zeros_def shape_refused_def intp_max_def softmax_layer_def
      numeral_2_eq_2 runTest_def
      asDigits_def predict_def compute_def np_dot_def softmax_two_zeros softmax_two_halves
      argmax_def np_max_def)

text \<open>
  Claim C2, as amended. When the activation function maps the zero vector to a vector
  that sums to zero, as the default identity does, \<open>runTest\<close> of a Layer with all-zero
  weights on a non-empty data set of samples of the layer's input length, with non-empty
  label rows, returns accuracy 0 and every index as misclassified, and every prediction
  is the undefined one.
\<close>

theorem zero_weights_all_misclassified:
  assumes "\<forall>r \<in> set (weights l). \<forall>v \<in> set r. v = 0"
    and "aF l (replicate (length (weights l)) 0) = Inr v" and "sum_list v = 0"
    and "X \<noteq> []" and "length X = length y"
    and "\<forall>x \<in> set X. list_all (\<lambda>r. length r = length x) (weights l)"
    and "\<forall>r \<in> set y. r \<noteq> []"
  shows "runTest X y (compute l) None = Inr (0, [0..<length X])
         \<and> (\<forall>x \<in> set X. predict (compute l) x = Inr None)"
proof -
  have p: "\<forall>x \<in> set X. predict (compute l) x = Inr None"
    using assms(1,2,3,6) by (simp add: predict_def compute_zero_weights)
  with assms(4,5,7) show ?thesis by (simp add: runTest_all_undefined)
qed

theorem zero_weights_all_misclassified_witness:
  "runTest [[1, 2], [3, 4]] [[0, 1], [1, 0]] (compute oja_layer) None = Inr (0, [0, 1])
   \<and> predict (compute oja_layer) [1, 2] = Inr None
   \<and> predict (compute oja_layer) [3, 4] = Inr None"
  using zero_weights_all_misclassified [of oja_layer "[0, 0]" "[[1, 2], [3, 4]]" "[[0, 1], [1, 0]]"]
  by (simp add: oja_layer_def numeral_2_eq_2)

section \<open>The sample loop\<close>

lemma sample_loop_frame:
  "sample_loop idxDec decay Xt yt i order st = (st', e) \<Longrightarrow>
   rng st' = rng st \<and> orders st' = orders st \<and> hist st' = hist st"
proof (induction order arbitrary: i st)
  case Nil
  then show ?case by simp
next
  case (Cons idx rest)
  show ?case
  proof (cases "length Xt \<le> idx \<or> length yt \<le> idx")
    case True
    with Cons.prems show ?thesis by auto
  next
    case False
    show ?thesis
    proof (cases "learn (lyr st) (Xt ! idx) (yt ! idx) (eta_cur st)")
      case (Inl e')
      with False Cons.prems show ?thesis by auto
    next
      case (Inr l')
      show ?thesis
      proof (cases "idxDec = 0")
        case True
        with False Inr Cons.prems show ?thesis by auto
      next
        case nz: False
        let ?st1 = "if (i + 1) mod idxDec = 0 then st\<lparr>lyr := l', eta_cur := eta_cur st * decay\<rparr>
              else st\<lparr>lyr := l'\<rparr>"
        from False Inr nz Cons.prems
        have "sample_loop idxDec decay Xt yt (i + 1) rest ?st1 = (st', e)" by simp
        from Cons.IH [OF this] show ?thesis by (simp split: if_splits)
      qed
    qed
  qed
qed

lemma decay_steps_Nil: "decay_steps idxDec i 0 = 0"
  by (simp add: decay_steps_def)

lemma decay_steps_Suc:
  "decay_steps idxDec i (Suc n) =
     (if (i + 1) mod idxDec = 0 then 1 else 0) + decay_steps idxDec (i + 1) n"
proof -
  have "[i + 1..i + int (Suc n)] = (i + 1) # [i + 1 + 1..i + 1 + int n]"
    by (subst upto_rec1) (simp_all add: add.assoc)
  then show ?thesis by (simp add: decay_steps_def)
qed

lemma sample_loop_ok:
  assumes "shape_rule (learning (lyr st))" "has_shape (weights (lyr st)) s"
    "data_fits Xt yt s" "\<forall>idx \<in> set order. idx < length Xt" "idxDec \<noteq> 0"
  shows "\<exists>st'. sample_loop idxDec decay Xt yt i order st = (st', None)
           \<and> eta_cur st' = eta_cur st * decay ^ decay_steps idxDec i (length order)
           \<and> has_shape (weights (lyr st')) s \<and> learning (lyr st') = learning (lyr st)
           \<and> normalize (lyr st') = normalize (lyr st) \<and> aF (lyr st') = aF (lyr st)
           \<and> layerShape (lyr st') = layerShape (lyr st)"
  using assms
proof (induction order arbitrary: i st)
  case Nil
  then show ?case by (simp add: decay_steps_Nil)
next
  case (Cons idx rest)
  from Cons.prems(3,4) have idx: "idx < length Xt" "idx < length yt"
    "length (Xt ! idx) = snd s" "length (yt ! idx) = fst s"
    by (auto simp: data_fits_def list_all_length)
  from learn_shape [OF Cons.prems(1,2) idx(3,4), of "eta_cur st"]
  obtain l' where l': "learn (lyr st) (Xt ! idx) (yt ! idx) (eta_cur st) = Inr l'"
    "has_shape (weights l') s" "learning l' = learning (lyr st)" "normalize l' = normalize (lyr st)"
    "aF l' = aF (lyr st)" "layerShape l' = layerShape (lyr st)"
    by blast
  let ?st1 = "if (i + 1) mod idxDec = 0 then st\<lparr>lyr := l', eta_cur := eta_cur st * decay\<rparr>
              else st\<lparr>lyr := l'\<rparr>"
  have step: "sample_loop idxDec decay Xt yt i (idx # rest) st =
              sample_loop idxDec decay Xt yt (i + 1) rest ?st1"
    using idx l' Cons.prems(5) by simp
  have "\<exists>st'. sample_loop idxDec decay Xt yt (i + 1) rest ?st1 = (st', None)
           \<and> eta_cur st' = eta_cur ?st1 * decay ^ decay_steps idxDec (i + 1) (length rest)
           \<and> has_shape (weights (lyr st')) s \<and> learning (lyr st') = learning (lyr ?st1)
           \<and> normalize (lyr st') = normalize (lyr ?st1) \<and> aF (lyr st') = aF (lyr ?st1)
           \<and> layerShape (lyr st') = layerShape (lyr ?st1)"
    using Cons.prems l' by (intro Cons.IH) auto
  then obtain st' where st': "sample_loop idxDec decay Xt yt (i + 1) rest ?st1 = (st', None)"
    "eta_cur st' = eta_cur ?st1 * decay ^ decay_steps idxDec (i + 1) (length rest)"
    "has_shape (weights (lyr st')) s" "learning (lyr st') = learning (lyr ?st1)"
    "normalize (lyr st') = normalize (lyr ?st1)" "aF (lyr st') = aF (lyr ?st1)"
    "layerShape (lyr st') = layerShape (lyr ?st1)"
    by blast
  have "eta_cur st' = eta_cur st * decay ^ decay_steps idxDec i (length (idx # rest))"
    using st'(2) by (simp add: decay_steps_Suc)
  with step st' l' show ?case by auto
qed

section \<open>Validation and the epoch loop\<close>

lemma predict_ok:
  assumes "network x = Inr v"
  shows "\<exists>p. predict network x = Inr p"
proof (cases "sum_list v = 0")
  case True
  with assms show ?thesis by (simp add: predict_def)
next
  case False
  then have "v \<noteq> []" by auto
  with assms False show ?thesis by (simp add: predict_def softmax_def Let_def)
qed

lemma compute_ok:
  assumes "total_act (aF l)" "list_all (\<lambda>r. length r = length x) (weights l)"
  shows "\<exists>v. compute l x = Inr v"
  using assms by (simp add: compute_def total_act_def)

lemma runTest_ok:
  assumes "\<forall>x \<in> set X. \<exists>v. network x = Inr v" "X \<noteq> []" "length X = length y"
    "\<forall>r \<in> set y. r \<noteq> []"
  shows "\<exists>res. runTest X y network None = Inr res"
proof -
  have d: "asDigits y = Inr (map argmax y)"
    using assms(4) by (auto simp: asDigits_def list_ex_iff)
  define f where "f x = (case predict network x of Inr p \<Rightarrow> p | Inl e \<Rightarrow> None)" for x
  have "\<forall>x \<in> set X. predict network x = Inr (f x)"
  proof
    fix x assume "x \<in> set X"
    with assms(1) obtain v where v: "network x = Inr v" by blast
    from predict_ok [of network x v] v show "predict network x = Inr (f x)"
      by (auto simp: f_def)
  qed
  then have l: "preds_loop network (length y) 0 X = Inr (map f X)"
    using assms(3) by (intro preds_loop_ok) auto
  have "y \<noteq> []" using assms(2,3) by auto
  then show ?thesis
    using assms(3) by (simp add: runTest_def d l Let_def)
qed

lemma runTest_layer_ok:
  assumes "total_act (aF l)" "has_shape (weights l) s" "data_fits X y s" "X \<noteq> []" "0 < fst s"
  shows "\<exists>res. runTest X y (compute l) None = Inr res"
proof (rule runTest_ok)
  show "\<forall>x \<in> set X. \<exists>v. compute l x = Inr v"
  proof
    fix x assume "x \<in> set X"
    with assms(3) have "length x = snd s" by (auto simp: data_fits_def list_all_iff)
    with assms(2) have "list_all (\<lambda>r. length r = length x) (weights l)"
      by (simp add: has_shape_def)
    with assms(1) show "\<exists>v. compute l x = Inr v" by (rule compute_ok)
  qed
  show "X \<noteq> []" by fact
  show "length X = length y" using assms(3) by (simp add: data_fits_def)
  show "\<forall>r \<in> set y. r \<noteq> []" using assms(3,5) by (auto simp: data_fits_def list_all_iff)
qed

lemma epoch_order_valid:
  assumes "permute \<longrightarrow> is_permutation_source perm n"
  shows "mset (fst (if permute then perm g n else ([0..<n], g))) = mset [0..<n]"
  using assms by (auto simp: is_permutation_source_def)

lemma mset_upt_bounds:
  assumes "mset order = mset [0..<n]"
  shows "length order = n \<and> (\<forall>idx \<in> set order. idx < n)"
proof -
  from assms have "set order = set [0..<n]" by (rule mset_eq_setD)
  moreover from assms have "length order = length [0..<n]" by (rule mset_eq_length)
  ultimately show ?thesis by auto
qed

lemma epoch_loop_ok:
  assumes "shape_rule (learning (lyr st))" "total_act (aF (lyr st))"
    "has_shape (weights (lyr st)) s" "0 < fst s"
    "data_fits Xt yt s" "data_fits X_val y_val s" "X_val \<noteq> []"
    "permute \<longrightarrow> is_permutation_source perm (length Xt)" "idxDec \<noteq> 0"
  shows "\<exists>st'. epoch_loop perm permute idxDec decay Xt yt X_val y_val k st = (st', None)
           \<and> eta_cur st' = eta_cur st * decay ^ (k * (decay_steps idxDec 0 (length Xt) + 1))
           \<and> orders st' = orders st @ drawn_orders perm permute (rng st) (length Xt) k
           \<and> length (hist st') = length (hist st) + k
           \<and> has_shape (weights (lyr st')) s \<and> aF (lyr st') = aF (lyr st)"
  using assms(1,2,3)
proof (induction k arbitrary: st)
  case 0
  then show ?case by simp
next
  case (Suc k)
  let ?n = "length Xt"
  let ?drawn = "if permute then perm (rng st) ?n else ([0..<?n], rng st)"
  let ?st0 = "st\<lparr>rng := snd ?drawn, orders := orders st @ [fst ?drawn]\<rparr>"
  from epoch_order_valid [OF assms(8)] have "mset (fst ?drawn) = mset [0..<?n]" .
  then have ord: "length (fst ?drawn) = ?n" "\<forall>idx \<in> set (fst ?drawn). idx < ?n"
    using mset_upt_bounds by blast+
  have "\<exists>st'. sample_loop idxDec decay Xt yt 0 (fst ?drawn) ?st0 = (st', None)
           \<and> eta_cur st' = eta_cur ?st0 * decay ^ decay_steps idxDec 0 (length (fst ?drawn))
           \<and> has_shape (weights (lyr st')) s \<and> learning (lyr st') = learning (lyr ?st0)
           \<and> normalize (lyr st') = normalize (lyr ?st0) \<and> aF (lyr st') = aF (lyr ?st0)
           \<and> layerShape (lyr st') = layerShape (lyr ?st0)"
    using Suc.prems assms(5,9) ord(2) by (intro sample_loop_ok) simp_all
  then obtain st1 where st1: "sample_loop idxDec decay Xt yt 0 (fst ?drawn) ?st0 = (st1, None)"
    "eta_cur st1 = eta_cur st * decay ^ decay_steps idxDec 0 ?n"
    "has_shape (weights (lyr st1)) s" "learning (lyr st1) = learning (lyr st)"
    "aF (lyr st1) = aF (lyr st)"
    using ord(1) by auto
  from sample_loop_frame [OF st1(1)]
  have fr: "rng st1 = snd ?drawn" "orders st1 = orders st @ [fst ?drawn]" "hist st1 = hist st"
    by simp_all
  from runTest_layer_ok [of "lyr st1" s X_val y_val] st1 Suc.prems(2) assms(4,6,7)
  obtain res where res: "runTest X_val y_val (compute (lyr st1)) None = Inr res" by auto
  let ?st2 = "st1\<lparr>hist := hist st1 @ [fst res], eta_cur := eta_cur st1 * decay\<rparr>"
  have step: "epoch_loop perm permute idxDec decay Xt yt X_val y_val (Suc k) st =
              epoch_loop perm permute idxDec decay Xt yt X_val y_val k ?st2"
    using st1(1) res by (simp add: Let_def)
  have "\<exists>st'. epoch_loop perm permute idxDec decay Xt yt X_val y_val k ?st2 = (st', None)
           \<and> eta_cur st' = eta_cur ?st2 * decay ^ (k * (decay_steps idxDec 0 (length Xt) + 1))
           \<and> orders st' = orders ?st2 @ drawn_orders perm permute (rng ?st2) (length Xt) k
           \<and> length (hist st') = length (hist ?st2) + k
           \<and> has_shape (weights (lyr st')) s \<and> aF (lyr st') = aF (lyr ?st2)"
    using st1 Suc.prems by (intro Suc.IH) simp_all
  then obtain st' where st': "epoch_loop perm permute idxDec decay Xt yt X_val y_val k ?st2 = (st', None)"
    "eta_cur st' = eta_cur ?st2 * decay ^ (k * (decay_steps idxDec 0 ?n + 1))"
    "orders st' = orders ?st2 @ drawn_orders perm permute (rng ?st2) ?n k"
    "length (hist st') = length (hist ?st2) + k" "has_shape (weights (lyr st')) s"
    "aF (lyr st') = aF (lyr ?st2)"
    by blast
  have e: "eta_cur st' = eta_cur st * decay ^ (Suc k * (decay_steps idxDec 0 ?n + 1))"
    using st'(2) st1(2) by (simp add: power_add mult_ac)
  have o: "orders st' = orders st @ drawn_orders perm permute (rng st) ?n (Suc k)"
    using st'(3) fr by (simp add: Let_def)
  from step st'(1,4,5,6) st1(5) e o fr(3) show ?case by simp
qed

section \<open>Layer.train\<close>

lemma py_int_pos: "1 \<le> r \<Longrightarrow> py_int r \<noteq> 0"
  by (simp add: py_int_def) linarith

lemma py_int_small: "0 \<le> r \<Longrightarrow> r < 1 \<Longrightarrow> py_int r = 0"
  by (simp add: py_int_def floor_eq_iff)

lemma train_ok:
  assumes "shape_rule (learning l)" "total_act (aF l)" "has_shape (weights l) s" "0 < fst s"
    "data_fits Xt yt s" "data_fits X_val y_val s" "X_val \<noteq> []"
    "permute \<longrightarrow> is_permutation_source perm (length Xt)"
    "0 < decayAfter" "decayAfter \<le> 1" "1 \<le> real (length Xt) * decayAfter"
  shows "\<exists>st. train perm g l Xt yt X_val y_val epochs eta permute decay decayAfter = (st, None)
           \<and> eta_cur st = eta * decay ^ (epochs *
                 (decay_steps (py_int (real (length Xt) * decayAfter)) 0 (length Xt) + 1))
           \<and> orders st = drawn_orders perm permute g (length Xt) epochs
           \<and> length (hist st) = epochs
           \<and> has_shape (weights (lyr st)) s \<and> aF (lyr st) = aF l"
proof -
  let ?st = "\<lparr>lyr = l, eta_cur = eta, hist = [], rng = g, orders = []\<rparr>"
  let ?d = "py_int (real (length Xt) * decayAfter)"
  have t: "train perm g l Xt yt X_val y_val epochs eta permute decay decayAfter =
           epoch_loop perm permute ?d decay Xt yt X_val y_val epochs ?st"
    using assms(5,6,9,10) by (simp add: train_def data_fits_def)
  have "\<exists>st'. epoch_loop perm permute ?d decay Xt yt X_val y_val epochs ?st = (st', None)
           \<and> eta_cur st' = eta_cur ?st * decay ^ (epochs * (decay_steps ?d 0 (length Xt) + 1))
           \<and> orders st' = orders ?st @ drawn_orders perm permute (rng ?st) (length Xt) epochs
           \<and> length (hist st') = length (hist ?st) + epochs
           \<and> has_shape (weights (lyr st')) s \<and> aF (lyr st') = aF (lyr ?st)"
    using assms py_int_pos [OF assms(11)] by (intro epoch_loop_ok) simp_all
  with t show ?thesis by simp
qed

lemma decay_steps_5_10: "decay_steps 5 0 10 = 2"
  by (simp add: decay_steps_def upto_rec1)

text \<open>
  Claim C1, as amended. With \<open>decayAfter = 0.5\<close>, \<open>decay = 0.5\<close>, initial \<open>eta = 1\<close>, ten
  well-shaped training samples, a non-empty well-shaped validation set and one epoch,
  \<open>train\<close> returns with \<open>eta = 0.125\<close>: the in-loop decay fires at sample 5 and again
  at sample 10, and the decay at the end of the epoch follows.
\<close>

theorem decay_schedule_ten_samples:
  assumes "learning l \<in> {r_hebb, r_decay, r_ojas}" "total_act (aF l)"
    "has_shape (weights l) s" "0 < fst s"
    "data_fits Xt yt s" "length Xt = 10" "data_fits X_val y_val s" "X_val \<noteq> []"
    "permute \<longrightarrow> is_permutation_source perm 10"
  shows "\<exists>st. train perm g l Xt yt X_val y_val 1 1 permute (1/2) (1/2) = (st, None)
           \<and> eta_cur st = 1/8"
proof -
  from train_ok [of l s Xt yt X_val y_val permute perm "1/2" g 1 1 "1/2"] assms
  show ?thesis
    by (auto simp: shape_rule_three py_int_def decay_steps_5_10 power3_eq_cube)
qed

lemma unit_layer_facts:
  "learning unit_layer = r_hebb" "total_act (aF unit_layer)" "has_shape (weights unit_layer) (1, 1)"
  by (simp_all add: unit_layer_def total_act_def has_shape_def)

lemma ten_samples_fit: "data_fits (replicate 10 [1]) (replicate 10 [1]) (1, 1)"
  by (simp add: data_fits_def list_all_iff)

lemma one_sample_fits: "data_fits [[1]] [[1]] (1, 1)"
  by (simp add: data_fits_def)

theorem decay_schedule_ten_samples_witness:
  "\<exists>st. train (\<lambda>g n. ([0..<n], g)) () unit_layer (replicate 10 [1]) (replicate 10 [1])
           [[1]] [[1]] 1 1 False (1/2) (1/2) = (st, None)
         \<and> eta_cur st = 1/8"
  using decay_schedule_ten_samples [of unit_layer "(1, 1)" "replicate 10 [1]" "replicate 10 [1]"
          "[[1]]" "[[1]]" False "\<lambda>g n. ([0..<n], g)" "()"]
        unit_layer_facts ten_samples_fit one_sample_fits
  by simp

text \<open>
  Claim C1 as stated fails: on ten samples the learning rate after the epoch is 0.125,
  not 0.25.
\<close>

theorem decay_schedule_not_quarter:
  "eta_cur (fst (train (\<lambda>g n. ([0..<n], g)) () unit_layer (replicate 10 [1]) (replicate 10 [1])
           [[1]] [[1]] 1 1 False (1/2) (1/2))) = 1/8
   \<and> (1/8 :: real) \<noteq> 1/4"
proof -
  from train_ok [of unit_layer "(1, 1)" "replicate 10 [1]" "replicate 10 [1]" "[[1]]" "[[1]]"
          False "\<lambda>g n. ([0..<n], g)" "1/2" "()" 1 1 "1/2"]
    unit_layer_facts ten_samples_fit one_sample_fits
  show ?thesis
    by (auto simp: shape_rule_three py_int_def decay_steps_5_10 power3_eq_cube)
qed

text \<open>
  Claim C10. When \<open>decayAfter\<close> is positive but \<open>trainingSetSize * decayAfter < 1\<close>, the
  configuration assertions pass, the first sample of the first epoch is learned, and the
  modulo by \<open>idxDec = 0\<close> then raises ZeroDivisionError: \<open>train\<close> ends with the layer as
  that first \<open>learn\<close> left it.
\<close>

theorem train_small_decayAfter_divides_by_zero:
  assumes "0 < decayAfter" "real (length Xt) * decayAfter < 1"
    "length Xt = length yt" "length X_val = length y_val" "0 < epochs"
    "(if permute then perm g (length Xt) else ([0..<length Xt], g)) = (idx # rest, g')"
    "idx < length Xt" "learn l (Xt ! idx) (yt ! idx) eta = Inr l'"
  shows "train perm g l Xt yt X_val y_val epochs eta permute decay decayAfter =
           (\<lparr>lyr = l', eta_cur = eta, hist = [], rng = g', orders = [idx # rest]\<rparr>,
            Some ZeroDivisionError)"
proof -
  from assms(7) have "1 \<le> real (length Xt)" by simp
  with assms(1,2) have le: "decayAfter \<le> 1"
    by (smt (verit, best) mult_left_le_one_le mult_le_cancel_right1)
  have z: "py_int (real (length Xt) * decayAfter) = 0"
    using assms(1,2) by (intro py_int_small) simp_all
  from assms(5) obtain k where k: "epochs = Suc k" by (cases epochs) auto
  let ?st = "\<lparr>lyr = l, eta_cur = eta, hist = [], rng = g, orders = []\<rparr>"
  have t: "train perm g l Xt yt X_val y_val epochs eta permute decay decayAfter =
           epoch_loop perm permute 0 decay Xt yt X_val y_val (Suc k) ?st"
    unfolding train_def z k using assms(1,3,4) le by (simp add: Let_def)
  have s: "sample_loop 0 decay Xt yt 0 (idx # rest) (?st\<lparr>rng := g', orders := orders ?st @ [idx # rest]\<rparr>)
           = (\<lparr>lyr = l', eta_cur = eta, hist = [], rng = g', orders = [idx # rest]\<rparr>,
              Some ZeroDivisionError)"
    using assms(3,7,8) by simp
  have d: "fst (if permute then perm g (length Xt) else ([0..<length Xt], g)) = idx # rest"
    "snd (if permute then perm g (length Xt) else ([0..<length Xt], g)) = g'"
    unfolding assms(6) by simp_all
  show ?thesis
    unfolding t epoch_loop.simps Let_def train_st.simps d using s by simp
qed

theorem train_small_decayAfter_divides_by_zero_witness:
  "train (\<lambda>g n. ([0..<n], g)) () unit_layer (replicate 10 [1]) (replicate 10 [1])
           [[1]] [[1]] 1 1 False 1 (1/20) =
     (\<lparr>lyr = unit_layer\<lparr>weights := [[1]]\<rparr>, eta_cur = 1, hist = [], rng = (),
       orders = [[0..<10]]\<rparr>, Some ZeroDivisionError)"
proof -
  have l: "learn unit_layer (replicate 10 [1] ! 0) (replicate 10 [1] ! 0) 1
             = Inr (unit_layer\<lparr>weights := [[1]]\<rparr>)"
    by (simp add: learn_def unit_layer_def r_hebb_def conforms_def)
  have o: "(if False then (\<lambda>g n. ([0..<n], g)) () (length (replicate 10 [1::real]))
            else ([0..<length (replicate 10 [1::real])], ())) = (0 # [1..<10], ())"
    by (simp add: upt_rec)
  from train_small_decayAfter_divides_by_zero [of "1/20" "replicate 10 [1]" "replicate 10 [1]"
          "[[1]]" "[[1]]" 1 False "\<lambda>g n. ([0..<n], g)" "()" 0 "[1..<10]" "()" unit_layer 1
          "unit_layer\<lparr>weights := [[1]]\<rparr>" 1, OF _ _ _ _ _ o _ l]
  show ?thesis by (simp add: upt_rec)
qed

section \<open>Order of the samples under the plain Hebbian rule\<close>

lemma map2_map2_swap:
  assumes "\<And>w a b. f (g w b) a = g (f w a) b"
  shows "map2 f (map2 g W bs) as = map2 g (map2 f W as) bs"
proof (induction W arbitrary: as bs)
  case Nil
  then show ?case by simp
next
  case (Cons w W)
  show ?case
  proof (cases as)
    case Nil
    then show ?thesis by simp
  next
    case a: (Cons a as')
    show ?thesis
    proof (cases bs)
      case Nil
      then show ?thesis by simp
    next
      case (Cons b bs')
      with a Cons.IH [of bs' as'] assms show ?thesis by simp
    qed
  qed
qed

lemma hebb_step_commute:
  "hebb_step eta Xt yt a (hebb_step eta Xt yt b W) = hebb_step eta Xt yt b (hebb_step eta Xt yt a W)"
  unfolding hebb_step_def
  by (rule map2_map2_swap, rule map2_map2_swap) (simp add: algebra_simps)

lemma fold_hebb_step_mset:
  assumes "mset A = mset B"
  shows "fold (hebb_step eta Xt yt) A W = fold (hebb_step eta Xt yt) B W"
proof -
  have "fold (hebb_step eta Xt yt) A = fold (hebb_step eta Xt yt) B"
    by (rule fold_multiset_equiv) (auto simp: assms hebb_step_commute fun_eq_iff)
  then show ?thesis by simp
qed

lemma hebb_step_shape:
  assumes "has_shape W s" "data_fits Xt yt s" "idx < length Xt"
  shows "has_shape (hebb_step eta Xt yt idx W) s"
    and "r_hebb W (Xt ! idx) (yt ! idx) eta = Inr (hebb_step eta Xt yt idx W)"
proof -
  from assms(2,3) have l: "length (Xt ! idx) = snd s" "length (yt ! idx) = fst s"
    by (auto simp: data_fits_def list_all_length)
  from has_shape_map2 [OF assms(1) l] show "has_shape (hebb_step eta Xt yt idx W) s"
    unfolding hebb_step_def .
  from has_shape_conforms [OF assms(1) l]
  show "r_hebb W (Xt ! idx) (yt ! idx) eta = Inr (hebb_step eta Xt yt idx W)"
    by (simp add: r_hebb_def hebb_step_def)
qed

lemma sample_loop_hebb:
  assumes "learning (lyr st) = r_hebb" "\<not> normalize (lyr st)" "has_shape (weights (lyr st)) s"
    "data_fits Xt yt s" "\<forall>idx \<in> set order. idx < length Xt"
    "0 < idxDec" "0 \<le> i" "decay = 1 \<or> i + int (length order) \<le> idxDec"
  shows "weights (lyr (fst (sample_loop idxDec decay Xt yt i order st))) =
           fold (hebb_step (eta_cur st) Xt yt) order (weights (lyr st))"
  using assms
proof (induction order arbitrary: i st)
  case Nil
  then show ?case by simp
next
  case (Cons idx rest)
  from Cons.prems(4,5) have idx: "idx < length Xt" "idx < length yt"
    by (auto simp: data_fits_def)
  let ?W1 = "hebb_step (eta_cur st) Xt yt idx (weights (lyr st))"
  let ?l' = "(lyr st)\<lparr>weights := ?W1\<rparr>"
  from hebb_step_shape [OF Cons.prems(3,4) idx(1), of "eta_cur st"] Cons.prems(1,2)
  have l': "learn (lyr st) (Xt ! idx) (yt ! idx) (eta_cur st) = Inr ?l'" and sh: "has_shape ?W1 s"
    by (simp_all add: learn_def)
  let ?st1 = "if (i + 1) mod idxDec = 0 then st\<lparr>lyr := ?l', eta_cur := eta_cur st * decay\<rparr>
              else st\<lparr>lyr := ?l'\<rparr>"
  have step: "sample_loop idxDec decay Xt yt i (idx # rest) st =
              sample_loop idxDec decay Xt yt (i + 1) rest ?st1"
    using idx l' Cons.prems(6) by simp
  show ?case
  proof (cases "rest = []")
    case True
    then show ?thesis unfolding step by simp
  next
    case False
    have same: "eta_cur ?st1 = eta_cur st"
    proof (cases "decay = 1")
      case True
      then show ?thesis by simp
    next
      case d: False
      with Cons.prems(8) have "i + int (length (idx # rest)) \<le> idxDec" by simp
      moreover from False have "1 \<le> int (length rest)" by (cases rest) auto
      ultimately have "i + 1 < idxDec" by simp
      with Cons.prems(7) have "(i + 1) mod idxDec = i + 1" by simp
      with Cons.prems(7) show ?thesis by simp
    qed
    have "weights (lyr (fst (sample_loop idxDec decay Xt yt (i + 1) rest ?st1))) =
           fold (hebb_step (eta_cur ?st1) Xt yt) rest (weights (lyr ?st1))"
      using Cons.prems sh by (intro Cons.IH) auto
    then show ?thesis unfolding step same by simp
  qed
qed

lemma epoch_loop_once_lyr:
  "lyr (fst (epoch_loop perm permute idxDec decay Xt yt X_val y_val (Suc 0) st)) =
   lyr (fst (sample_loop idxDec decay Xt yt 0
          (fst (if permute then perm (rng st) (length Xt) else ([0..<length Xt], rng st)))
          (st\<lparr>rng := snd (if permute then perm (rng st) (length Xt) else ([0..<length Xt], rng st)),
              orders := orders st @ [fst (if permute then perm (rng st) (length Xt)
                                          else ([0..<length Xt], rng st))]\<rparr>)))"
  by (simp add: Let_def split: prod.splits option.splits sum.splits)

text \<open>
  Claim C3 as stated fails: when the learning rate decays between two samples of the
  epoch, the plain Hebbian layer ends with different weights under the orders (0, 1) and
  (1, 0) of the same two samples.
\<close>

theorem hebb_order_matters_under_decay:
  "fst (flip_perm True 2) = [0, 1] \<and> fst (flip_perm False 2) = [1, 0]
   \<and> weights (lyr (fst (train flip_perm True unit_layer [[1], [2]] [[1], [1]] [[1]] [[1]]
                           1 1 True (1/2) (1/2)))) = [[2]]
   \<and> weights (lyr (fst (train flip_perm False unit_layer [[1], [2]] [[1], [1]] [[1]] [[1]]
                           1 1 True (1/2) (1/2)))) = [[5/2]]"
proof -
  have o: "fst (flip_perm True 2) = [0, 1]" "fst (flip_perm False 2) = [1, 0]"
    by (simp_all add: flip_perm_def upt_rec numeral_2_eq_2)
  have d: "py_int (real (length [[1::real], [2]]) * (1/2)) = 1"
    by (simp add: py_int_def)
  have t: "\<And>g. train flip_perm g unit_layer [[1], [2]] [[1], [1]] [[1]] [[1]] 1 1 True (1/2) (1/2)
             = epoch_loop flip_perm True 1 (1/2) [[1], [2]] [[1], [1]] [[1]] [[1]] (Suc 0)
                 \<lparr>lyr = unit_layer, eta_cur = 1, hist = [], rng = g, orders = []\<rparr>"
    unfolding train_def d by simp
  have a: "weights (lyr (fst (train flip_perm True unit_layer [[1], [2]] [[1], [1]] [[1]] [[1]]
                           1 1 True (1/2) (1/2)))) = [[2]]"
    unfolding t epoch_loop_once_lyr
    by (simp add: flip_perm_def upt_rec learn_def r_hebb_def conforms_def unit_layer_def)
  have b: "weights (lyr (fst (train flip_perm False unit_layer [[1], [2]] [[1], [1]] [[1]] [[1]]
                           1 1 True (1/2) (1/2)))) = [[5/2]]"
    unfolding t epoch_loop_once_lyr
    by (simp add: flip_perm_def upt_rec learn_def r_hebb_def conforms_def unit_layer_def)
  from o a b show ?thesis by simp
qed

text \<open>
  Claim C3, as amended. For a plain Hebbian layer without normalisation, one epoch of
  \<open>train\<close> over well-shaped data leaves the same weights under any two permutations of
  the sample indices, provided the learning rate is the same at every sample of the
  epoch: \<open>decay = 1\<close>, or \<open>decayAfter = 1\<close> so that the in-loop decay falls after the last
  sample, with \<open>idxDec\<close> at least one.
\<close>

theorem hebb_order_invariant:
  assumes "learning l = r_hebb" "\<not> normalize l" "has_shape (weights l) s"
    "data_fits Xt yt s"
    "mset (fst (perm gA (length Xt))) = mset [0..<length Xt]"
    "mset (fst (perm gB (length Xt))) = mset [0..<length Xt]"
    "0 < decayAfter" "decayAfter \<le> 1" "1 \<le> real (length Xt) * decayAfter"
    "decay = 1 \<or> decayAfter = 1"
  shows "weights (lyr (fst (train perm gA l Xt yt X_val y_val 1 eta True decay decayAfter))) =
         weights (lyr (fst (train perm gB l Xt yt X_val y_val 1 eta True decay decayAfter)))"
proof (cases "length X_val = length y_val")
  case False
  then show ?thesis by (simp add: train_def Let_def)
next
  case True
  let ?n = "length Xt"
  let ?d = "py_int (real ?n * decayAfter)"
  have t: "\<And>g. train perm g l Xt yt X_val y_val 1 eta True decay decayAfter =
           epoch_loop perm True ?d decay Xt yt X_val y_val (Suc 0)
             \<lparr>lyr = l, eta_cur = eta, hist = [], rng = g, orders = []\<rparr>"
    using assms(4,7,8) True by (simp add: train_def data_fits_def)
  have pos: "0 < ?d" using assms(9) by (simp add: py_int_def)
  have w: "weights (lyr (fst (train perm g l Xt yt X_val y_val 1 eta True decay decayAfter))) =
           fold (hebb_step eta Xt yt) (fst (perm g ?n)) (weights l)"
    if m: "mset (fst (perm g ?n)) = mset [0..<?n]" for g
  proof -
    from mset_upt_bounds [OF m]
    have len: "length (fst (perm g ?n)) = ?n" and bd: "\<forall>idx \<in> set (fst (perm g ?n)). idx < ?n"
      by simp_all
    have c: "decay = 1 \<or> 0 + int (length (fst (perm g ?n))) \<le> ?d"
      using assms(10) len by (auto simp: py_int_def)
    let ?st0 = "\<lparr>lyr = l, eta_cur = eta, hist = [], rng = snd (perm g ?n),
                  orders = [fst (perm g ?n)]\<rparr>"
    have "weights (lyr (fst (sample_loop ?d decay Xt yt 0 (fst (perm g ?n)) ?st0))) =
           fold (hebb_step (eta_cur ?st0) Xt yt) (fst (perm g ?n)) (weights (lyr ?st0))"
      using assms(1,2,3,4) bd pos c by (intro sample_loop_hebb) simp_all
    then show ?thesis unfolding t epoch_loop_once_lyr by simp
  qed
  have "mset (fst (perm gA ?n)) = mset (fst (perm gB ?n))"
    using assms(5,6) by simp
  from fold_hebb_step_mset [OF this] w [OF assms(5)] w [OF assms(6)]
  show ?thesis by simp
qed

lemma flip_perm_mset: "mset (fst (flip_perm g n)) = mset [0..<n]"
  by (simp add: flip_perm_def)

lemma two_samples_fit: "data_fits [[1], [2]] [[1], [1]] (1, 1)"
  by (simp add: data_fits_def)

theorem hebb_order_invariant_witness:
  "fst (flip_perm True 2) = [0, 1] \<and> fst (flip_perm False 2) = [1, 0]
   \<and> weights (lyr (fst (train flip_perm True unit_layer [[1], [2]] [[1], [1]] [[1]] [[1]]
                           1 1 True (1/2) 1))) =
     weights (lyr (fst (train flip_perm False unit_layer [[1], [2]] [[1], [1]] [[1]] [[1]]
                           1 1 True (1/2) 1)))"
  using hebb_order_invariant [of unit_layer "(1, 1)" "[[1], [2]]" "[[1], [1]]" flip_perm True False
          1 "1/2" "[[1]]" "[[1]]" 1]
        unit_layer_facts two_samples_fit flip_perm_mset
  by (simp add: flip_perm_def upt_rec numeral_2_eq_2 unit_layer_def)

section \<open>Seeding in the experiment driver\<close>

lemma epoch_loop_orders:
  "epoch_loop perm permute idxDec decay Xt yt X_val y_val k st = (st', None) \<Longrightarrow>
   orders st' = orders st @ drawn_orders perm permute (rng st) (length Xt) k"
proof (induction k arbitrary: st)
  case 0
  then show ?case by simp
next
  case (Suc k)
  let ?n = "length Xt"
  let ?drawn = "if permute then perm (rng st) ?n else ([0..<?n], rng st)"
  let ?st0 = "st\<lparr>rng := snd ?drawn, orders := orders st @ [fst ?drawn]\<rparr>"
  obtain st1 e1 where s: "sample_loop idxDec decay Xt yt 0 (fst ?drawn) ?st0 = (st1, e1)"
    by (cases "sample_loop idxDec decay Xt yt 0 (fst ?drawn) ?st0") auto
  from sample_loop_frame [OF s]
  have fr: "rng st1 = snd ?drawn" "orders st1 = orders st @ [fst ?drawn]" by simp_all
  from Suc.prems s obtain res where e1: "e1 = None"
    and r: "runTest X_val y_val (compute (lyr st1)) None = Inr res"
    and rest: "epoch_loop perm permute idxDec decay Xt yt X_val y_val k
                 (st1\<lparr>hist := hist st1 @ [fst res], eta_cur := eta_cur st1 * decay\<rparr>) = (st', None)"
    by (auto simp: Let_def split: option.splits sum.splits)
  from Suc.IH [OF rest] fr show ?case by (simp add: Let_def)
qed

lemma train_orders:
  assumes "train perm g l Xt yt X_val y_val epochs eta permute decay decayAfter = (st, None)"
  shows "orders st = drawn_orders perm permute g (length Xt) epochs"
proof -
  from assms have "epoch_loop perm permute (py_int (real (length Xt) * decayAfter)) decay
                     Xt yt X_val y_val epochs
                     \<lparr>lyr = l, eta_cur = eta, hist = [], rng = g, orders = []\<rparr> = (st, None)"
    by (simp add: train_def Let_def split: if_splits)
  from epoch_loop_orders [OF this] show ?thesis by simp
qed

lemma trained_Inr:
  "trained r = Inr st \<Longrightarrow> r = (st, None)"
  by (cases r) (auto simp: trained_def split: option.splits)

lemma bind_err_Inr:
  "bind_err m f = Inr r \<Longrightarrow> \<exists>v. m = Inr v \<and> f v = Inr r"
  by (cases m) (auto simp: bind_err_def)

text \<open>
  Claim C8. In a run of the experiment that completes, each of the three \<open>train\<close> calls
  started from the generator state \<open>seed run\<close>, and the three layers visited the training
  samples in the same order in every epoch: the orders drawn from that state.
\<close>

theorem run_uses_same_orders:
  assumes "experiment_run seed perm rule_hebb rule_decay rule_ojas X_train y_train X_val y_val
             X_test y_test epochs decayAfter decay permute N_INPUT N_OUTPUT eta run = Inr out"
  shows "\<exists>hebb deca ojas.
           Layer_init N_INPUT N_OUTPUT Inr rule_hebb False = Inr hebb
         \<and> Layer_init N_INPUT N_OUTPUT Inr rule_decay False = Inr deca
         \<and> Layer_init N_INPUT N_OUTPUT Inr rule_ojas True = Inr ojas
         \<and> train perm (seed run) hebb X_train y_train X_val y_val epochs eta permute decay decayAfter
             = (hebb_run out, None)
         \<and> train perm (seed run) deca X_train y_train X_val y_val epochs eta permute decay decayAfter
             = (deca_run out, None)
         \<and> train perm (seed run) ojas X_train y_train X_val y_val epochs eta permute decay decayAfter
             = (ojas_run out, None)
         \<and> orders (hebb_run out) = drawn_orders perm permute (seed run) (length X_train) epochs
         \<and> orders (deca_run out) = orders (hebb_run out)
         \<and> orders (ojas_run out) = orders (hebb_run out)"
proof -
  from assms [unfolded experiment_run_def]
  obtain hebb deca ojas sh sd so th td to where
    i: "Layer_init N_INPUT N_OUTPUT Inr rule_hebb False = Inr hebb"
       "Layer_init N_INPUT N_OUTPUT Inr rule_decay False = Inr deca"
       "Layer_init N_INPUT N_OUTPUT Inr rule_ojas True = Inr ojas"
    and t: "trained (train perm (seed run) hebb X_train y_train X_val y_val epochs eta permute decay decayAfter) = Inr sh"
       "trained (train perm (seed run) deca X_train y_train X_val y_val epochs eta permute decay decayAfter) = Inr sd"
       "trained (train perm (seed run) ojas X_train y_train X_val y_val epochs eta permute decay decayAfter) = Inr so"
    and o: "out = \<lparr>hebb_run = sh, deca_run = sd, ojas_run = so,
                   hebb_post = th, deca_post = td, ojas_post = to\<rparr>"
    by (auto dest!: bind_err_Inr)
  from t have t': 
    "train perm (seed run) hebb X_train y_train X_val y_val epochs eta permute decay decayAfter = (sh, None)"
    "train perm (seed run) deca X_train y_train X_val y_val epochs eta permute decay decayAfter = (sd, None)"
    "train perm (seed run) ojas X_train y_train X_val y_val epochs eta permute decay decayAfter = (so, None)"
    by (auto dest: trained_Inr)
  from t' have "orders sh = drawn_orders perm permute (seed run) (length X_train) epochs"
    "orders sd = drawn_orders perm permute (seed run) (length X_train) epochs"
    "orders so = drawn_orders perm permute (seed run) (length X_train) epochs"
    by (auto dest: train_orders)
  with i t' o show ?thesis by simp
qed

lemma experiment_run_ok:
  assumes pos: "0 < N_INPUT" "0 < N_OUTPUT" and size: "8 * N_OUTPUT * N_INPUT \<le> intp_max"
    and rules: "shape_rule rule_hebb" "shape_rule rule_decay" "shape_rule rule_ojas"
    and tr: "data_fits X_train y_train (nat N_OUTPUT, nat N_INPUT)"
    and va: "data_fits X_val y_val (nat N_OUTPUT, nat N_INPUT)" "X_val \<noteq> []"
    and te: "data_fits X_test y_test (nat N_OUTPUT, nat N_INPUT)" "X_test \<noteq> []"
    and pm: "permute \<longrightarrow> is_permutation_source perm (length X_train)"
    and da: "0 < decayAfter" "decayAfter \<le> 1" "1 \<le> real (length X_train) * decayAfter"
  shows "\<exists>out. experiment_run seed perm rule_hebb rule_decay rule_ojas X_train y_train X_val y_val
             X_test y_test epochs decayAfter decay permute N_INPUT N_OUTPUT eta run = Inr out"
proof -
  let ?s = "(nat N_OUTPUT, nat N_INPUT)"
  have ok: "\<exists>st th. trained (train perm (seed run) l X_train y_train X_val y_val epochs eta permute
                      decay decayAfter) = Inr st
              \<and> runTest X_test y_test (compute (lyr st)) None = Inr th"
    if l: "Layer_init N_INPUT N_OUTPUT Inr rule nf = Inr l" and r: "shape_rule rule" for l rule nf
  proof -
    from l have l': "l = \<lparr>layerShape = (N_OUTPUT, N_INPUT), aF = Inr, learning = rule,
        normalize = nf, weights = replicate (nat N_OUTPUT) (replicate (nat N_INPUT) 0)\<rparr>"
      by (simp add: Layer_init_Inr)
    have p: "shape_rule (learning l)" "total_act (aF l)" "has_shape (weights l) ?s" "0 < fst ?s"
      using r pos by (simp_all add: l' total_act_def Layer_init_shape)
    from train_ok [OF p tr va pm da, of "seed run" epochs eta decay]
    obtain st where st: "train perm (seed run) l X_train y_train X_val y_val epochs eta permute
                      decay decayAfter = (st, None)"
      "has_shape (weights (lyr st)) ?s" "aF (lyr st) = aF l"
      by blast
    from runTest_layer_ok [of "lyr st" ?s X_test y_test] st p te
    obtain th where "runTest X_test y_test (compute (lyr st)) None = Inr th" by auto
    with st show ?thesis by (auto simp: trained_def)
  qed
  from pos size have adm: "\<not> shape_refused (N_OUTPUT, N_INPUT)"
    by (simp add: shape_refused_def)
  then obtain hebb deca ojas where
    i: "Layer_init N_INPUT N_OUTPUT Inr rule_hebb False = Inr hebb"
       "Layer_init N_INPUT N_OUTPUT Inr rule_decay False = Inr deca"
       "Layer_init N_INPUT N_OUTPUT Inr rule_ojas True = Inr ojas"
    by (simp add: Layer_init_ok)
  from ok [OF i(1) rules(1)] ok [OF i(2) rules(2)] ok [OF i(3) rules(3)] i
  show ?thesis
    unfolding experiment_run_def by (auto simp: bind_err_def)
qed

lemma mset_rotate1_eq: "mset (rotate1 xs) = mset xs"
  by (cases xs) simp_all

lemma mset_rotate_eq: "mset (rotate g xs) = mset xs"
  by (induction g) (simp_all add: mset_rotate1_eq)

lemma rot_perm_source: "is_permutation_source rot_perm n"
  unfolding is_permutation_source_def rot_perm_def fst_conv by (rule allI, rule mset_rotate_eq)

lemma rot_orders:
  "drawn_orders rot_perm True 1 (length [[1::real], [2]]) 2 = [[1, 0], [0, 1]]"
  by (simp add: rot_perm_def numeral_2_eq_2 upt_rec)

theorem run_uses_same_orders_witness:
  "\<exists>out. experiment_run (\<lambda>k. k) rot_perm r_hebb r_decay r_ojas [[1], [2]] [[1], [1]] [[1]] [[1]]
            [[1]] [[1]] 2 1 1 True 1 1 (1/10) 1 = Inr out
         \<and> orders (hebb_run out) = [[1, 0], [0, 1]]
         \<and> orders (deca_run out) = [[1, 0], [0, 1]]
         \<and> orders (ojas_run out) = [[1, 0], [0, 1]]"
proof -
  have f1: "data_fits [[1], [2]] [[1], [1]] (nat 1, nat 1)"
    using two_samples_fit by simp
  have f2: "data_fits [[1]] [[1]] (nat 1, nat 1)"
    using one_sample_fits by simp
  have s: "shape_rule r_hebb" "shape_rule r_decay" "shape_rule r_ojas"
    by (simp_all add: shape_rule_three)
  have "\<exists>out. experiment_run (\<lambda>k. k) rot_perm r_hebb r_decay r_ojas [[1], [2]] [[1], [1]]
            [[1]] [[1]] [[1]] [[1]] 2 1 1 True 1 1 (1/10) 1 = Inr out"
    by (rule experiment_run_ok [OF _ _ _ s f1 f2 _ f2])
       (simp_all add: rot_perm_source intp_max_def)
  then obtain out where out: "experiment_run (\<lambda>k. k) rot_perm r_hebb r_decay r_ojas [[1], [2]] [[1], [1]]
            [[1]] [[1]] [[1]] [[1]] 2 1 1 True 1 1 (1/10) 1 = Inr out"
    by blast
  from run_uses_same_orders [OF out]
  have "orders (hebb_run out) = drawn_orders rot_perm True 1 (length [[1::real], [2]]) 2
        \<and> orders (deca_run out) = orders (hebb_run out)
        \<and> orders (ojas_run out) = orders (hebb_run out)"
    by blast
  then have "orders (hebb_run out) = [[1, 0], [0, 1]]
        \<and> orders (deca_run out) = [[1, 0], [0, 1]] \<and> orders (ojas_run out) = [[1, 0], [0, 1]]"
    unfolding rot_orders by simp
  with out show ?thesis by blast
qed

end
